theory Spec2Isabelle
  imports Complex_Main
begin

section \<open>Data model of \<^verbatim>\<open>src/src/App.tsx\<close>\<close>

text \<open>
  A JavaScript \<^verbatim>\<open>number\<close> is a double: a finite one is the \<^typ>\<open>real\<close> it stands
  for, and \<open>number\<close> adds the three values that are not finite.
\<close>

datatype number = Num real | Infinity | NegInfinity | NaN

text \<open>
  \<^verbatim>\<open>interface LatLng { lat: number; lng: number }\<close>. The vertices of a polygon come
  from map clicks and from JSON numbers, which are finite, so they are \<open>real LatLng\<close>;
  the viewport centre can become \<^verbatim>\<open>NaN\<close> and is a \<open>number LatLng\<close>.
\<close>

record 'n LatLng =
  lat :: 'n
  lng :: 'n

datatype ViewType = street | satellite

text \<open>The \<^verbatim>\<open>useState\<close> cells of the \<^verbatim>\<open>App\<close> component, in the order of the source.\<close>

record app_state =
  view :: ViewType
  searchQuery :: string
  selectedArea :: string
  isDrawing :: bool
  drawnPolygon :: "real LatLng list"
  drawingPoints :: "real LatLng list"
  mapCenter :: "number LatLng"
  zoom :: real
  activeDrawTool :: "string option"
  isSearching :: bool
  searchError :: "string option"
  isGridOn :: bool

text \<open>
  A parsed JSON text, as \<^verbatim>\<open>JSON.parse\<close> returns it. An object holds its own
  properties, one entry per key. A JavaScript value met while the document is walked is a
  \<open>jsval\<close>: \<open>None\<close> is \<^verbatim>\<open>undefined\<close>.
\<close>

datatype json =
    JNull
  | JBool bool
  | JNum real
  | JStr string
  | JArr "json list"
  | JObj "(string \<times> json) list"

type_synonym jsval = "json option"

datatype js_error = TypeError

text \<open>
  What a handler does besides updating the state: \<^verbatim>\<open>alert(msg)\<close>, and the download of
  a document under a file name (the text downloaded is \<^verbatim>\<open>JSON.stringify\<close> of the
  document).
\<close>

datatype effect = Alert string | Download string json

text \<open>The file picked in the file input: \<^verbatim>\<open>file.name\<close> and the text the reader loads.\<close>

record input_file =
  file_name :: string
  file_text :: string

section \<open>The active shape and the drawing tool\<close>

text \<open>
  \<^verbatim>\<open>activeShape\<close> (lines 158-163): the confirmed polygon when it has more than two
  vertices, else the in-progress buffer when it has more than two, else \<^verbatim>\<open>null\<close>.
\<close>

definition activeShape :: "app_state \<Rightarrow> real LatLng list option" where
  "activeShape s =
     (if length (drawnPolygon s) > 2 then Some (drawnPolygon s)
      else if length (drawingPoints s) > 2 then Some (drawingPoints s)
      else None)"

text \<open>The \<^verbatim>\<open>click\<close> handler of \<^verbatim>\<open>MapController\<close> (lines 65-72).\<close>

definition click :: "app_state \<Rightarrow> real LatLng \<Rightarrow> app_state" where
  "click s p =
     (if isDrawing s then s\<lparr>drawingPoints := drawingPoints s @ [p]\<rparr> else s)"

text \<open>\<^verbatim>\<open>toggleDrawing\<close> (lines 328-342).\<close>

definition toggleDrawing :: "app_state \<Rightarrow> app_state" where
  "toggleDrawing s =
     (if activeDrawTool s = Some ''polygon'' then
        (let s1 = (if length (drawingPoints s) > 2
                   then s\<lparr>drawnPolygon := drawingPoints s\<rparr> else s)
         in s1\<lparr>drawingPoints := [], isDrawing := False, activeDrawTool := None\<rparr>)
      else
        s\<lparr>drawnPolygon := [], drawingPoints := [], isDrawing := True,
          activeDrawTool := Some ''polygon''\<rparr>)"

text \<open>\<^verbatim>\<open>handlePointerMode\<close> (lines 344-348) and \<^verbatim>\<open>handleClearAOI\<close> (lines 239-244).\<close>

definition handlePointerMode :: "app_state \<Rightarrow> app_state" where
  "handlePointerMode s =
     s\<lparr>isDrawing := False, activeDrawTool := Some ''pointer'', drawingPoints := []\<rparr>"

definition handleClearAOI :: "app_state \<Rightarrow> app_state" where
  "handleClearAOI s =
     s\<lparr>drawnPolygon := [], drawingPoints := [], isDrawing := False,
       activeDrawTool := None\<rparr>"

section \<open>Bounding-box centre\<close>

text \<open>
  \<^verbatim>\<open>Math.min(...xs)\<close> and \<^verbatim>\<open>Math.max(...xs)\<close> on finite numbers: with no argument
  they are \<^verbatim>\<open>Infinity\<close> and \<^verbatim>\<open>-Infinity\<close>.
\<close>

fun Math_min :: "real list \<Rightarrow> number" where
  "Math_min [] = Infinity"
| "Math_min (x # xs) = Num (fold min xs x)"

fun Math_max :: "real list \<Rightarrow> number" where
  "Math_max [] = NegInfinity"
| "Math_max (x # xs) = Num (fold max xs x)"

text \<open>
  The sum \<^verbatim>\<open>a + b\<close> and the quotient \<^verbatim>\<open>a / 2\<close> of JavaScript numbers, on finite
  numbers without the rounding of the last digit.
\<close>

fun num_add :: "number \<Rightarrow> number \<Rightarrow> number" where
  "num_add (Num a) (Num b) = Num (a + b)"
| "num_add NaN _ = NaN"
| "num_add _ NaN = NaN"
| "num_add Infinity NegInfinity = NaN"
| "num_add NegInfinity Infinity = NaN"
| "num_add Infinity _ = Infinity"
| "num_add _ Infinity = Infinity"
| "num_add NegInfinity _ = NegInfinity"
| "num_add _ NegInfinity = NegInfinity"

fun num_half :: "number \<Rightarrow> number" where
  "num_half (Num a) = Num (a / 2)"
| "num_half n = n"

text \<open>
  The centre both \<^verbatim>\<open>handleFileChange\<close> (lines 302-305) and \<^verbatim>\<open>handleZoomToShape\<close>
  (lines 354-357) compute from a list of points.
\<close>

definition bbox_center :: "real LatLng list \<Rightarrow> number LatLng" where
  "bbox_center pts =
     (let lats = map lat pts;
          lngs = map lng pts;
          centerLat = num_half (num_add (Math_min lats) (Math_max lats));
          centerLng = num_half (num_add (Math_min lngs) (Math_max lngs))
      in \<lparr>lat = centerLat, lng = centerLng\<rparr>)"

text \<open>
  \<^verbatim>\<open>handleZoomToShape\<close> (lines 350-361): no alert on either path. The definition is
  that of a shape with no more vertices than the engine accepts as arguments of one call;
  beyond that number \<^verbatim>\<open>Math.min(...lats)\<close> throws before any setter is called.
\<close>

definition handleZoomToShape :: "app_state \<Rightarrow> app_state \<times> effect list" where
  "handleZoomToShape s =
     (case activeShape s of
        None \<Rightarrow> (s, [])
      | Some pts \<Rightarrow>
          if length pts = 0 then (s, [])
          else (s\<lparr>mapCenter := bbox_center pts, zoom := 13\<rparr>, []))"

section \<open>Geometry\<close>









text \<open>\<^verbatim>\<open>stats\<close> (lines 165-172).\<close>

record AOIStats =
  vertices :: nat
  perimeter :: number
  area :: number


section \<open>Export\<close>

text \<open>
  \<^verbatim>\<open>handleExportGeoJSON\<close> (lines 385-417). \<^verbatim>\<open>coords.push(coords[0])\<close> appends the
  first pair again; the state is not touched.
\<close>

definition export_geojson :: "string \<Rightarrow> real LatLng list \<Rightarrow> json" where
  "export_geojson area_name shape =
     (let coords = map (\<lambda>p. JArr [JNum (lng p), JNum (lat p)]) shape;
          coords = (case coords of [] \<Rightarrow> coords | c # _ \<Rightarrow> coords @ [c])
      in JObj
          [(''type'', JStr ''Feature''),
           (''properties'',
              JObj [(''name'',
                 JStr (if area_name = [] then ''Area of Interest'' else area_name))]),
           (''geometry'',
              JObj [(''type'', JStr ''Polygon''),
                    (''coordinates'', JArr [JArr coords])])])"

definition handleExportGeoJSON :: "app_state \<Rightarrow> app_state \<times> effect list" where
  "handleExportGeoJSON s =
     (case activeShape s of
        None \<Rightarrow> (s, [Alert ''No polygon to export.''])
      | Some sh \<Rightarrow>
          if length sh < 3 then (s, [Alert ''No polygon to export.''])
          else (s, [Download ''area-of-interest.geojson''
                      (export_geojson (selectedArea s) sh)]))"

section \<open>Import\<close>

text \<open>
  Reading a JSON value the way JavaScript does. \<open>truthy\<close> is the test of \<^verbatim>\<open>!v\<close> and
  \<^verbatim>\<open>&&\<close>. \<open>js_prop v k\<close> is \<^verbatim>\<open>v.k\<close> for the names the handler reads
  (\<^verbatim>\<open>type\<close>, \<^verbatim>\<open>features\<close>, \<^verbatim>\<open>geometry\<close>, \<^verbatim>\<open>coordinates\<close>): a \<^verbatim>\<open>TypeError\<close> on
  \<^verbatim>\<open>null\<close> and \<^verbatim>\<open>undefined\<close>, the own property of an object, \<^verbatim>\<open>undefined\<close> on
  anything else. \<open>js_length v\<close> is \<^verbatim>\<open>v.length\<close> and \<open>js_index v i\<close> is \<^verbatim>\<open>v[i]\<close>.
\<close>

fun truthy :: "jsval \<Rightarrow> bool" where
  "truthy None = False"
| "truthy (Some JNull) = False"
| "truthy (Some (JBool b)) = b"
| "truthy (Some (JNum x)) = (x \<noteq> 0)"
| "truthy (Some (JStr s)) = (s \<noteq> [])"
| "truthy (Some (JArr xs)) = True"
| "truthy (Some (JObj kvs)) = True"

fun js_prop :: "jsval \<Rightarrow> string \<Rightarrow> js_error + jsval" where
  "js_prop None k = Inl TypeError"
| "js_prop (Some JNull) k = Inl TypeError"
| "js_prop (Some (JObj kvs)) k = Inr (map_of kvs k)"
| "js_prop (Some v) k = Inr None"

fun js_length :: "jsval \<Rightarrow> js_error + jsval" where
  "js_length None = Inl TypeError"
| "js_length (Some JNull) = Inl TypeError"
| "js_length (Some (JArr xs)) = Inr (Some (JNum (real (length xs))))"
| "js_length (Some (JStr s)) = Inr (Some (JNum (real (length s))))"
| "js_length (Some (JObj kvs)) = Inr (map_of kvs ''length'')"
| "js_length (Some v) = Inr None"

text \<open>The decimal spelling of an index, the key under which an object holds it.\<close>

fun index_key :: "nat \<Rightarrow> string" where
  "index_key n =
     (if n < 10 then [char_of (48 + n)]
      else index_key (n div 10) @ [char_of (48 + n mod 10)])"

fun js_index :: "jsval \<Rightarrow> nat \<Rightarrow> js_error + jsval" where
  "js_index None i = Inl TypeError"
| "js_index (Some JNull) i = Inl TypeError"
| "js_index (Some (JArr xs)) i = Inr (if i < length xs then Some (xs ! i) else None)"
| "js_index (Some (JStr s)) i = Inr (if i < length s then Some (JStr [s ! i]) else None)"
| "js_index (Some (JObj kvs)) i = Inr (map_of kvs (index_key i))"
| "js_index (Some v) i = Inr None"

text \<open>
  The callback of \<^verbatim>\<open>geojson.features.find\<close> (lines 263-268), run over the features in
  order: the first feature with a truthy \<^verbatim>\<open>geometry\<close> whose \<^verbatim>\<open>type\<close> is
  \<^verbatim>\<open>'Polygon'\<close> or \<^verbatim>\<open>'MultiPolygon'\<close>.
\<close>

fun find_feature :: "json list \<Rightarrow> js_error + json option" where
  "find_feature [] = Inr None"
| "find_feature (f # fs) =
     (case js_prop (Some f) ''geometry'' of
        Inl e \<Rightarrow> Inl e
      | Inr g \<Rightarrow>
          if \<not> truthy g then find_feature fs
          else (case js_prop g ''type'' of
                  Inl e \<Rightarrow> Inl e
                | Inr t \<Rightarrow>
                    if t = Some (JStr ''Polygon'') \<or> t = Some (JStr ''MultiPolygon'')
                    then Inr (Some f)
                    else find_feature fs))"

text \<open>
  The choice of \<^verbatim>\<open>coords\<close> from a geometry \<open>g\<close>, written twice in the source (lines
  270-274 for the feature found in a collection, lines 277-281 for a feature).
\<close>

definition geometry_coords :: "jsval \<Rightarrow> js_error + jsval" where
  "geometry_coords g =
     (case js_prop g ''type'' of
        Inl e \<Rightarrow> Inl e
      | Inr t \<Rightarrow>
          if t = Some (JStr ''Polygon'') then js_prop g ''coordinates''
          else if t = Some (JStr ''MultiPolygon'') then
            (case js_prop g ''coordinates'' of
               Inl e \<Rightarrow> Inl e
             | Inr cs \<Rightarrow> js_index cs 0)
          else Inr None)"

text \<open>Lines 260-284: \<^verbatim>\<open>coords\<close> after the three branches on \<^verbatim>\<open>geojson.type\<close>.\<close>

definition find_coords :: "json \<Rightarrow> js_error + jsval" where
  "find_coords geojson =
     (case js_prop (Some geojson) ''type'' of
        Inl e \<Rightarrow> Inl e
      | Inr ty \<Rightarrow>
          if ty = Some (JStr ''FeatureCollection'') then
            (case js_prop (Some geojson) ''features'' of
               Inl e \<Rightarrow> Inl e
             | Inr (Some (JArr fs)) \<Rightarrow>
                 (case find_feature fs of
                    Inl e \<Rightarrow> Inl e
                  | Inr None \<Rightarrow> Inr None
                  | Inr (Some feature) \<Rightarrow>
                      (case js_prop (Some feature) ''geometry'' of
                         Inl e \<Rightarrow> Inl e
                       | Inr g \<Rightarrow> geometry_coords g))
             | Inr _ \<Rightarrow> Inl TypeError)
          else if ty = Some (JStr ''Feature'') then
            (case js_prop (Some geojson) ''geometry'' of
               Inl e \<Rightarrow> Inl e
             | Inr g \<Rightarrow> geometry_coords g)
          else if ty = Some (JStr ''Polygon'') then js_prop (Some geojson) ''coordinates''
          else Inr None)"

text \<open>
  \<^verbatim>\<open>ring.map((c) => ({ lng: c[0], lat: c[1] }))\<close> (lines 292-295): the values read,
  before any is taken as a number.
\<close>

fun ring_points :: "json list \<Rightarrow> js_error + (jsval \<times> jsval) list" where
  "ring_points [] = Inr []"
| "ring_points (c # cs) =
     (case js_index (Some c) 0 of
        Inl e \<Rightarrow> Inl e
      | Inr c0 \<Rightarrow>
          (case js_index (Some c) 1 of
             Inl e \<Rightarrow> Inl e
           | Inr c1 \<Rightarrow>
               (case ring_points cs of
                  Inl e \<Rightarrow> Inl e
                | Inr ps \<Rightarrow> Inr ((c0, c1) # ps))))"

text \<open>
  The source declares \<^verbatim>\<open>coords: number[][][]\<close> and checks nothing: a pair with a
  value that is not a number would be stored as it is in a \<^verbatim>\<open>LatLng\<close>. Such a point
  is outside the type of the state; \<open>typed_point\<close> is \<open>None\<close> for it.
\<close>

fun typed_point :: "jsval \<times> jsval \<Rightarrow> real LatLng option" where
  "typed_point (Some (JNum x), Some (JNum y)) = Some \<lparr>lat = y, lng = x\<rparr>"
| "typed_point _ = None"

text \<open>
  \<^verbatim>\<open>handleFileChange\<close> (lines 250-318), with \<^verbatim>\<open>JSON.parse\<close> as a parameter
  (\<open>None\<close> where it throws \<^verbatim>\<open>SyntaxError\<close>). Every exception of the \<^verbatim>\<open>try\<close> block
  ends in the \<^verbatim>\<open>catch\<close>, which alerts; the \<^verbatim>\<open>finally\<close> clause resets the file input
  element, which is no part of the state. The result is \<open>None\<close> when a point that is not a
  pair of numbers would be stored.

  The four setters of lines 297-300 are called before the centre is computed.
  \<^verbatim>\<open>Math.min(...lats)\<close> spreads the whole list into the arguments of one call, and an
  engine throws \<^verbatim>\<open>RangeError\<close> when there are more than it accepts; \<open>max_args\<close> is that
  limit, a parameter. The exception is caught after the four updates were queued: the
  alert is shown, and the centre, the zoom and the label keep their values.
\<close>

definition handleFileChange ::
  "(string \<Rightarrow> json option) \<Rightarrow> nat \<Rightarrow> app_state \<Rightarrow> input_file option
     \<Rightarrow> (app_state \<times> effect list) option" where
  "handleFileChange JSON_parse max_args s picked =
     (let failed = Some (s, [Alert ''Failed to read GeoJSON file.''])
      in case picked of
           None \<Rightarrow> Some (s, [])
         | Some file \<Rightarrow>
            (case JSON_parse (file_text file) of
               None \<Rightarrow> failed
             | Some geojson \<Rightarrow>
                (case find_coords geojson of
                   Inl e \<Rightarrow> failed
                 | Inr coords \<Rightarrow>
                    if \<not> truthy coords \<or> js_length coords = Inr (Some (JNum 0))
                    then Some (s, [Alert ''No polygon geometry found in GeoJSON.''])
                    else
                      (case js_index coords 0 of
                         Inr (Some (JArr ring)) \<Rightarrow>
                           (case ring_points ring of
                              Inl e \<Rightarrow> failed
                            | Inr raw \<Rightarrow>
                               (case those (map typed_point raw) of
                                  None \<Rightarrow> None
                                | Some polygon \<Rightarrow>
                                    (let s1 = s\<lparr>drawnPolygon := polygon,
                                                 drawingPoints := [],
                                                 isDrawing := False,
                                                 activeDrawTool := None\<rparr>
                                     in if length polygon > max_args
                                        then Some (s1, [Alert ''Failed to read GeoJSON file.''])
                                        else Some (s1\<lparr>mapCenter := bbox_center polygon,
                                                      zoom := 12,
                                                      selectedArea := file_name file\<rparr>, []))))
                       | _ \<Rightarrow> failed))))"

section \<open>Initial state\<close>

text \<open>\<^verbatim>\<open>DEFAULT_CENTER\<close>, \<^verbatim>\<open>DEFAULT_ZOOM\<close> (lines 85-86) and the initial values of the
  \<^verbatim>\<open>useState\<close> cells (lines 139-151).\<close>

definition DEFAULT_CENTER :: "number LatLng" where
  "DEFAULT_CENTER = \<lparr>lat = Num 20, lng = Num 0\<rparr>"

definition DEFAULT_ZOOM :: real where
  "DEFAULT_ZOOM = 2"

definition init_state :: app_state where
  "init_state =
     \<lparr>view = satellite, searchQuery = [], selectedArea = [], isDrawing = False,
      drawnPolygon = [], drawingPoints = [], mapCenter = DEFAULT_CENTER,
      zoom = DEFAULT_ZOOM, activeDrawTool = None, isSearching = False,
      searchError = None, isGridOn = False\<rparr>"

section \<open>The specification's notions\<close>

text \<open>
  The definitions of this section follow the words of the specification, not the source;
  the theorems compare the handlers with them.

  The member \<open>k\<close> of a JSON object:
\<close>

definition obj_field :: "json \<Rightarrow> string \<Rightarrow> json option" where
  "obj_field v k = (case v of JObj kvs \<Rightarrow> map_of kvs k | _ \<Rightarrow> None)"

text \<open>
  A geometry of type \<^verbatim>\<open>Polygon\<close> or \<^verbatim>\<open>MultiPolygon\<close>, a feature that wraps one, and a
  document with polygon geometry: a \<^verbatim>\<open>Polygon\<close>, a \<^verbatim>\<open>Feature\<close> wrapping one, or a
  \<^verbatim>\<open>FeatureCollection\<close> that contains such a feature.
\<close>

definition spec_polygonal :: "json \<Rightarrow> bool" where
  "spec_polygonal g =
     (obj_field g ''type'' = Some (JStr ''Polygon'') \<or>
      obj_field g ''type'' = Some (JStr ''MultiPolygon''))"

definition spec_polygon_feature :: "json \<Rightarrow> bool" where
  "spec_polygon_feature f =
     (case obj_field f ''geometry'' of None \<Rightarrow> False | Some g \<Rightarrow> spec_polygonal g)"

definition spec_has_polygon_geometry :: "json \<Rightarrow> bool" where
  "spec_has_polygon_geometry doc =
     (obj_field doc ''type'' = Some (JStr ''Polygon'') \<or>
      (obj_field doc ''type'' = Some (JStr ''Feature'') \<and> spec_polygon_feature doc) \<or>
      (obj_field doc ''type'' = Some (JStr ''FeatureCollection'') \<and>
       (case obj_field doc ''features'' of
          Some (JArr fs) \<Rightarrow> list_ex spec_polygon_feature fs
        | _ \<Rightarrow> False)))"



text \<open>A position \<^verbatim>\<open>[lng, lat, \<dots>]\<close> as the internal point, the order swapped.\<close>

fun spec_position :: "json \<Rightarrow> real LatLng option" where
  "spec_position (JArr (JNum x # JNum y # rest)) = Some \<lparr>lat = y, lng = x\<rparr>"
| "spec_position _ = None"


section \<open>Example inputs\<close>

text \<open>Concrete points, states and documents at which the theorems below are evaluated.\<close>

definition pt :: "real \<Rightarrow> real \<Rightarrow> real LatLng" where
  "pt la lo = \<lparr>lat = la, lng = lo\<rparr>"

definition tri :: "real LatLng list" where
  "tri = [pt 0 0, pt 0 1, pt 1 0]"

text \<open>The draw tool switched on in the initial state and three clicks; then switched off.\<close>

definition drawing_tri :: app_state where
  "drawing_tri = click (click (click (toggleDrawing init_state) (pt 0 0)) (pt 0 1)) (pt 1 0)"

definition tri_state :: app_state where
  "tri_state = toggleDrawing drawing_tri"

text \<open>A \<^verbatim>\<open>JSON.parse\<close> that reads the text as the document \<open>doc\<close>, and one that throws.\<close>

definition parse_as :: "json \<Rightarrow> string \<Rightarrow> json option" where
  "parse_as doc text = Some doc"

definition parse_fail :: "string \<Rightarrow> json option" where
  "parse_fail text = None"

definition shape_file :: input_file where
  "shape_file = \<lparr>file_name = ''shape.geojson'', file_text = ''{}''\<rparr>"

text \<open>A \<^verbatim>\<open>Polygon\<close> whose ring has two positions, and the state after its import.\<close>

definition two_doc :: json where
  "two_doc = JObj [(''type'', JStr ''Polygon''),
     (''coordinates'', JArr [JArr [JArr [JNum 0, JNum 0], JArr [JNum 1, JNum 1]]])]"

definition two_state :: app_state where
  "two_state = init_state\<lparr>drawnPolygon := [pt 0 0, pt 1 1],
     mapCenter := \<lparr>lat = Num (1 / 2), lng = Num (1 / 2)\<rparr>, zoom := 12,
     selectedArea := ''shape.geojson''\<rparr>"

text \<open>
  A \<^verbatim>\<open>Point\<close>, and a \<^verbatim>\<open>FeatureCollection\<close> whose first feature wraps the point and
  whose second wraps a \<^verbatim>\<open>MultiPolygon\<close> of two members, the first with a hole.
\<close>

definition point_doc :: json where
  "point_doc = JObj [(''type'', JStr ''Point''), (''coordinates'', JArr [JNum 5, JNum 5])]"




text \<open>An engine that accepts 65536 arguments in one call.\<close>

definition spread_limit :: nat where
  "spread_limit = 65536"


section \<open>Theorems: the drawing tool and the active shape\<close>

lemma drawing_tri_eq:
  "drawing_tri = init_state\<lparr>drawingPoints := tri, isDrawing := True,
     activeDrawTool := Some ''polygon''\<rparr>"
  by (simp add: drawing_tri_def toggleDrawing_def click_def init_state_def tri_def)

lemma tri_state_eq: "tri_state = init_state\<lparr>drawnPolygon := tri\<rparr>"
  by (simp add: tri_state_def drawing_tri_eq toggleDrawing_def init_state_def tri_def)





text \<open>
  Claim C4. With the draw tool on and an in-progress buffer of at least three vertices,
  toggling the draw tool off makes the buffer the confirmed polygon, empties the buffer
  and leaves drawing mode; no other cell of the state changes.
\<close>

theorem toggle_off_commits:
  assumes "activeDrawTool s = Some ''polygon''" and "3 \<le> length (drawingPoints s)"
  shows "toggleDrawing s =
           s\<lparr>drawnPolygon := drawingPoints s, drawingPoints := [], isDrawing := False,
             activeDrawTool := None\<rparr>"
  using assms by (simp add: toggleDrawing_def)

text \<open>Claim C4 at the state reached from the initial state by three clicks.\<close>

theorem toggle_off_commits_witness:
  "activeDrawTool drawing_tri = Some ''polygon'' \<and> 3 \<le> length (drawingPoints drawing_tri) \<and>
   drawnPolygon (toggleDrawing drawing_tri) = tri \<and>
   drawingPoints (toggleDrawing drawing_tri) = [] \<and> \<not> isDrawing (toggleDrawing drawing_tri)"
proof -
  have h1: "activeDrawTool drawing_tri = Some ''polygon''" by (simp add: drawing_tri_eq)
  have h2: "3 \<le> length (drawingPoints drawing_tri)" by (simp add: drawing_tri_eq tri_def)
  from toggle_off_commits [OF h1 h2] h1 h2 show ?thesis by (simp add: drawing_tri_eq)
qed

text \<open>
  Claim C1, as the source has it. Switching the draw tool on empties the confirmed polygon
  together with the buffer (\<^verbatim>\<open>setDrawnPolygon([])\<close>, line 337). So after the tool is
  switched on, two vertices are clicked and the tool is switched off, the confirmed
  polygon is empty, whatever it was before, and so is the buffer; the step that switches
  the tool off leaves the confirmed polygon as it finds it.
\<close>

theorem draw_two_then_toggle_off:
  assumes "activeDrawTool s \<noteq> Some ''polygon''"
  shows "toggleDrawing (click (click (toggleDrawing s) p1) p2) =
           s\<lparr>drawnPolygon := [], drawingPoints := [], isDrawing := False,
             activeDrawTool := None\<rparr>
       \<and> drawnPolygon (toggleDrawing (click (click (toggleDrawing s) p1) p2)) =
           drawnPolygon (click (click (toggleDrawing s) p1) p2)"
  using assms by (simp add: toggleDrawing_def click_def)

theorem draw_two_then_toggle_off_witness:
  "activeDrawTool tri_state \<noteq> Some ''polygon'' \<and>
   drawnPolygon (toggleDrawing (click (click (toggleDrawing tri_state) (pt 2 2)) (pt 3 3))) = [] \<and>
   drawingPoints (toggleDrawing (click (click (toggleDrawing tri_state) (pt 2 2)) (pt 3 3))) = []"
proof -
  have h: "activeDrawTool tri_state \<noteq> Some ''polygon''"
    by (simp add: tri_state_eq init_state_def)
  from draw_two_then_toggle_off [OF h, of "pt 2 2" "pt 3 3"] h show ?thesis by simp
qed

text \<open>
  Claim C1 as stated fails: from the state whose confirmed polygon is the triangle \<open>tri\<close>,
  the confirmed polygon after the three steps is not \<open>tri\<close>.
\<close>

theorem draw_two_counterexample:
  "activeDrawTool tri_state \<noteq> Some ''polygon'' \<and> drawnPolygon tri_state = tri \<and>
   drawnPolygon (toggleDrawing (click (click (toggleDrawing tri_state) (pt 2 2)) (pt 3 3))) \<noteq> tri"
  by (simp add: tri_state_eq toggleDrawing_def click_def init_state_def tri_def)

text \<open>
  Claim C10. With fewer than three vertices in the confirmed polygon and in the buffer,
  \<^verbatim>\<open>handleZoomToShape\<close> returns the state as it is and alerts nothing.
\<close>

theorem zoom_no_shape:
  assumes "length (drawnPolygon s) < 3" and "length (drawingPoints s) < 3"
  shows "handleZoomToShape s = (s, [])"
  using assms by (simp add: handleZoomToShape_def activeShape_def)

theorem zoom_no_shape_witness:
  "length (drawnPolygon two_state) < 3 \<and> length (drawingPoints two_state) < 3 \<and>
   handleZoomToShape two_state = (two_state, [])"
proof -
  have h1: "length (drawnPolygon two_state) < 3" by (simp add: two_state_def)
  have h2: "length (drawingPoints two_state) < 3" by (simp add: two_state_def init_state_def)
  from zoom_no_shape [OF h1 h2] h1 h2 show ?thesis by simp
qed




section \<open>Theorems: import\<close>

lemma js_prop_nonnull: "d \<noteq> JNull \<Longrightarrow> js_prop (Some d) k = Inr (obj_field d k)"
  by (cases d) (simp_all add: obj_field_def)

lemma js_prop_null: "js_prop (Some JNull) k = Inl TypeError"
  by simp

lemma obj_field_falsy: "\<not> truthy (Some v) \<Longrightarrow> obj_field v k = None"
  by (cases v) (simp_all add: obj_field_def)

lemma obj_field_null [simp]: "obj_field JNull k = None"
  by (simp add: obj_field_def)

lemma polygonal_iff:
  "v \<noteq> JNull \<Longrightarrow>
   (js_prop (Some v) ''type'' = Inr t \<and> (t = Some (JStr ''Polygon'') \<or> t = Some (JStr ''MultiPolygon'')))
   = (t = obj_field v ''type'' \<and> spec_polygonal v)"
  by (auto simp add: js_prop_nonnull spec_polygonal_def)

lemma find_feature_step:
  assumes "f \<noteq> JNull"
  shows "find_feature (f # fs) =
           (if spec_polygon_feature f then Inr (Some f) else find_feature fs)"
proof (cases "obj_field f ''geometry''")
  case None
  then show ?thesis using assms
    by (simp add: js_prop_nonnull spec_polygon_feature_def)
next
  case (Some g)
  show ?thesis
  proof (cases "truthy (Some g)")
    case True
    then have "g \<noteq> JNull" by auto
    then show ?thesis using assms Some True
      by (simp add: js_prop_nonnull spec_polygon_feature_def spec_polygonal_def)
  next
    case False
    then have "obj_field g ''type'' = None" by (rule obj_field_falsy)
    then show ?thesis using assms Some False
      by (simp add: js_prop_nonnull spec_polygon_feature_def spec_polygonal_def)
  qed
qed


lemma find_feature_cases:
  "find_feature fs = Inl TypeError \<or> find_feature fs = Inr None \<or>
   (\<exists>f. find_feature fs = Inr (Some f) \<and> f \<in> set fs \<and> spec_polygon_feature f)"
proof (induction fs)
  case Nil
  then show ?case by simp
next
  case (Cons f fs)
  show ?case
  proof (cases "f = JNull")
    case True
    then show ?thesis by simp
  next
    case False
    then show ?thesis using Cons
      by (auto simp add: find_feature_step simp del: find_feature.simps(2))
  qed
qed

lemma geometry_coords_not_polygonal:
  "\<not> spec_polygonal g \<Longrightarrow>
   geometry_coords (Some g) = Inl TypeError \<or> geometry_coords (Some g) = Inr None"
  by (cases "g = JNull")
     (auto simp add: geometry_coords_def js_prop_nonnull spec_polygonal_def)

lemma geometry_coords_undefined: "geometry_coords None = Inl TypeError"
  by (simp add: geometry_coords_def)

lemma find_coords_no_geometry:
  assumes "\<not> spec_has_polygon_geometry doc"
  shows "find_coords doc = Inl TypeError \<or> find_coords doc = Inr None"
proof (cases "doc = JNull")
  case True
  then show ?thesis by (simp add: find_coords_def)
next
  case nn: False
  have np: "obj_field doc ''type'' \<noteq> Some (JStr ''Polygon'')"
    using assms by (simp add: spec_has_polygon_geometry_def)
  consider (fc) "obj_field doc ''type'' = Some (JStr ''FeatureCollection'')"
    | (ft) "obj_field doc ''type'' = Some (JStr ''Feature'')"
    | (other) "obj_field doc ''type'' \<noteq> Some (JStr ''FeatureCollection'')"
        "obj_field doc ''type'' \<noteq> Some (JStr ''Feature'')"
    by blast
  then show ?thesis
  proof cases
    case fc
    show ?thesis
    proof (cases "obj_field doc ''features''")
      case None
      then show ?thesis using nn fc by (simp add: find_coords_def js_prop_nonnull)
    next
      case (Some fv)
      show ?thesis
      proof (cases fv)
        case (JArr fs)
        have nex: "\<not> list_ex spec_polygon_feature fs"
          using assms fc Some JArr by (simp add: spec_has_polygon_geometry_def)
        from find_feature_cases [of fs] nex
        have "find_feature fs = Inl TypeError \<or> find_feature fs = Inr None"
          by (auto simp add: list_ex_iff)
        then show ?thesis using nn fc Some JArr
          by (auto simp add: find_coords_def js_prop_nonnull)
      qed (use nn fc Some in \<open>simp_all add: find_coords_def js_prop_nonnull\<close>)
    qed
  next
    case ft
    have npf: "\<not> spec_polygon_feature doc"
      using assms ft by (simp add: spec_has_polygon_geometry_def)
    show ?thesis
    proof (cases "obj_field doc ''geometry''")
      case None
      then show ?thesis using nn ft
        by (simp add: find_coords_def js_prop_nonnull geometry_coords_undefined)
    next
      case (Some g)
      then have "\<not> spec_polygonal g" using npf by (simp add: spec_polygon_feature_def)
      from geometry_coords_not_polygonal [OF this] show ?thesis using nn ft Some
        by (simp add: find_coords_def js_prop_nonnull)
    qed
  next
    case other
    then show ?thesis using nn np by (simp add: find_coords_def js_prop_nonnull)
  qed
qed

text \<open>
  Claim C8. When the text of the file is not valid JSON, or the parsed document has no
  polygon geometry, the import shows one of its two alerts and returns the state as it
  was: no cell of it is changed.
\<close>

theorem import_malformed_keeps_state:
  assumes "JSON_parse (file_text f) = None \<or>
           (\<exists>doc. JSON_parse (file_text f) = Some doc \<and> \<not> spec_has_polygon_geometry doc)"
  shows "handleFileChange JSON_parse max_args s (Some f) =
           Some (s, [Alert ''Failed to read GeoJSON file.'']) \<or>
         handleFileChange JSON_parse max_args s (Some f) =
           Some (s, [Alert ''No polygon geometry found in GeoJSON.''])"
  using assms
proof
  assume "JSON_parse (file_text f) = None"
  then show ?thesis by (simp add: handleFileChange_def)
next
  assume "\<exists>doc. JSON_parse (file_text f) = Some doc \<and> \<not> spec_has_polygon_geometry doc"
  then obtain doc where d: "JSON_parse (file_text f) = Some doc"
    and n: "\<not> spec_has_polygon_geometry doc" by blast
  from find_coords_no_geometry [OF n] show ?thesis
    using d by (auto simp add: handleFileChange_def)
qed

text \<open>Claim C8 at a text that does not parse and at a \<^verbatim>\<open>Point\<close> document.\<close>

theorem import_malformed_keeps_state_witness:
  "parse_fail (file_text shape_file) = None \<and>
   handleFileChange parse_fail spread_limit tri_state (Some shape_file) =
     Some (tri_state, [Alert ''Failed to read GeoJSON file.'']) \<and>
   parse_as point_doc (file_text shape_file) = Some point_doc \<and>
   \<not> spec_has_polygon_geometry point_doc \<and>
   handleFileChange (parse_as point_doc) spread_limit tri_state (Some shape_file) =
     Some (tri_state, [Alert ''No polygon geometry found in GeoJSON.''])"
proof -
  have h1: "parse_fail (file_text shape_file) = None" by (simp add: parse_fail_def)
  have h2: "parse_as point_doc (file_text shape_file) = Some point_doc"
    by (simp add: parse_as_def)
  have h3: "\<not> spec_has_polygon_geometry point_doc"
    by (simp add: spec_has_polygon_geometry_def point_doc_def obj_field_def)
  have r1: "handleFileChange parse_fail spread_limit tri_state (Some shape_file) \<noteq>
              Some (tri_state, [Alert ''No polygon geometry found in GeoJSON.''])"
    by (simp add: handleFileChange_def parse_fail_def)
  have r2: "handleFileChange (parse_as point_doc) spread_limit tri_state (Some shape_file) \<noteq>
              Some (tri_state, [Alert ''Failed to read GeoJSON file.''])"
    by (simp add: handleFileChange_def parse_as_def point_doc_def find_coords_def)
  from import_malformed_keeps_state [of parse_fail shape_file spread_limit tri_state]
    import_malformed_keeps_state [of "parse_as point_doc" shape_file spread_limit tri_state]
    h1 h2 h3 r1 r2
  show ?thesis by auto
qed

lemma spec_position_index:
  assumes "spec_position c = Some p"
  shows "js_index (Some c) 0 = Inr (Some (JNum (lng p))) \<and>
         js_index (Some c) 1 = Inr (Some (JNum (lat p)))"
  using assms by (cases c rule: spec_position.cases) auto

lemma ring_points_typed:
  "those (map spec_position ring) = Some pts \<Longrightarrow>
   \<exists>raw. ring_points ring = Inr raw \<and> those (map typed_point raw) = Some pts"
proof (induction ring arbitrary: pts)
  case Nil
  then show ?case by simp
next
  case (Cons c cs)
  from Cons.prems obtain p ps where p: "spec_position c = Some p"
    and ps: "those (map spec_position cs) = Some ps" and pts: "pts = p # ps"
    by (auto split: option.splits)
  from Cons.IH [OF ps] obtain raw where raw: "ring_points cs = Inr raw"
    and ty: "those (map typed_point raw) = Some ps" by blast
  from spec_position_index [OF p] raw ty pts show ?case by simp
qed

lemma import_of_ring:
  assumes parse: "JSON_parse (file_text f) = Some doc"
    and coords: "find_coords doc = Inr (Some (JArr (JArr ring # rest)))"
    and pos: "those (map spec_position ring) = Some pts"
    and len: "length pts \<le> max_args"
  shows "handleFileChange JSON_parse max_args s (Some f) =
           Some (s\<lparr>drawnPolygon := pts, drawingPoints := [], isDrawing := False,
                   activeDrawTool := None, mapCenter := bbox_center pts, zoom := 12,
                   selectedArea := file_name f\<rparr>, [])"
proof -
  from ring_points_typed [OF pos] obtain raw where raw: "ring_points ring = Inr raw"
    and ty: "those (map typed_point raw) = Some pts" by blast
  show ?thesis using parse coords raw ty len
    by (simp add: handleFileChange_def Let_def)
qed

text \<open>
  A ring with more positions than the engine accepts as arguments: the four setters have
  run when \<^verbatim>\<open>Math.min(...lats)\<close> throws, so the alert is shown over a state whose
  polygon, buffer and drawing mode are already those of the import.
\<close>

lemma import_of_long_ring:
  assumes parse: "JSON_parse (file_text f) = Some doc"
    and coords: "find_coords doc = Inr (Some (JArr (JArr ring # rest)))"
    and pos: "those (map spec_position ring) = Some pts"
    and len: "max_args < length pts"
  shows "handleFileChange JSON_parse max_args s (Some f) =
           Some (s\<lparr>drawnPolygon := pts, drawingPoints := [], isDrawing := False,
                   activeDrawTool := None\<rparr>, [Alert ''Failed to read GeoJSON file.''])"
proof -
  from ring_points_typed [OF pos] obtain raw where raw: "ring_points ring = Inr raw"
    and ty: "those (map typed_point raw) = Some pts" by blast
  show ?thesis using parse coords raw ty len
    by (simp add: handleFileChange_def Let_def)
qed



lemma two_state_imported:
  "handleFileChange (parse_as two_doc) spread_limit init_state (Some shape_file) =
     Some (two_state, [])"
  by (simp add: handleFileChange_def parse_as_def two_doc_def find_coords_def two_state_def
      spread_limit_def
      shape_file_def bbox_center_def pt_def init_state_def)




section \<open>Theorems: export, then import\<close>

lemma those_positions:
  "those (map spec_position (map (\<lambda>p. JArr [JNum (lng p), JNum (lat p)]) ps)) = Some ps"
  by (induction ps) simp_all

lemma export_coords:
  "find_coords (export_geojson nm (p # ps)) =
     Inr (Some (JArr [JArr (map (\<lambda>p. JArr [JNum (lng p), JNum (lat p)]) ((p # ps) @ [p]))]))"
  by (simp add: export_geojson_def find_coords_def geometry_coords_def)

lemma export_then_import:
  assumes "JSON_parse (file_text f) = Some (export_geojson nm (p # ps))"
    and "length ((p # ps) @ [p]) \<le> max_args"
  shows "handleFileChange JSON_parse max_args s (Some f) =
           Some (s\<lparr>drawnPolygon := (p # ps) @ [p], drawingPoints := [], isDrawing := False,
                   activeDrawTool := None, mapCenter := bbox_center ((p # ps) @ [p]),
                   zoom := 12, selectedArea := file_name f\<rparr>, [])"
  by (rule import_of_ring [where JSON_parse = JSON_parse and f = f, OF assms(1) export_coords
        those_positions assms(2)])

text \<open>
  Claim C2 at the triangle \<open>tri\<close>. The export closes the ring with a copy of the first
  vertex (\<^verbatim>\<open>coords.push(coords[0])\<close>, line 392) and the import keeps every position of
  the ring (lines 291-295): the document exported from the three vertices comes back as
  a confirmed polygon of four, the first repeated at the end. Lemma \<open>export_then_import\<close>
  is the same for every shape.
\<close>

theorem export_import_adds_vertex:
  "handleExportGeoJSON tri_state =
     (tri_state, [Download ''area-of-interest.geojson'' (export_geojson [] tri)]) \<and>
   length (drawnPolygon tri_state) = 3 \<and>
   handleFileChange (parse_as (export_geojson [] tri)) spread_limit tri_state (Some shape_file) =
     Some (tri_state\<lparr>drawnPolygon := [pt 0 0, pt 0 1, pt 1 0, pt 0 0], drawingPoints := [],
             isDrawing := False, activeDrawTool := None,
             mapCenter := \<lparr>lat = Num (1 / 2), lng = Num (1 / 2)\<rparr>, zoom := 12,
             selectedArea := ''shape.geojson''\<rparr>, [])"
proof -
  have e: "handleExportGeoJSON tri_state =
     (tri_state, [Download ''area-of-interest.geojson'' (export_geojson [] tri)])"
    by (simp add: handleExportGeoJSON_def activeShape_def tri_state_eq tri_def init_state_def)
  have p: "parse_as (export_geojson [] tri) (file_text shape_file) =
             Some (export_geojson [] (pt 0 0 # [pt 0 1, pt 1 0]))"
    by (simp add: parse_as_def tri_def)
  have b: "bbox_center ((pt 0 0 # [pt 0 1, pt 1 0]) @ [pt 0 0]) =
             \<lparr>lat = Num (1 / 2), lng = Num (1 / 2)\<rparr>"
    by (simp add: bbox_center_def pt_def)
  have l: "length ((pt 0 0 # [pt 0 1, pt 1 0]) @ [pt 0 0]) \<le> spread_limit"
    by (simp add: spread_limit_def)
  from export_then_import [where JSON_parse = "parse_as (export_geojson [] tri)"
      and f = shape_file and s = tri_state, OF p l] e b
  show ?thesis by (simp add: shape_file_def tri_state_eq tri_def)
qed

text \<open>Claim C2 at \<open>tri\<close>, the vertex counts: three before the export, four after the import.\<close>

theorem export_import_adds_vertex_witness:
  "length (drawnPolygon tri_state) = 3 \<and>
   map_option (\<lambda>r. length (drawnPolygon (fst r)))
     (handleFileChange (parse_as (export_geojson [] tri)) spread_limit tri_state (Some shape_file)) = Some 4"
  using export_import_adds_vertex by simp

end
